theory Spec2Isabelle
  imports Main "HOL-Library.Word" "HOL-Library.Signed_Division"
begin

section \<open>The vblank scheduler of picom (vblank.h, vblank.c)\<close>

text \<open>
  The scheduler turns PresentCompleteNotify events of the X server into calls of a
  consumer callback at the end of a vblank. The embedding follows vblank.c function by
  function. What the C code does to the outside world (requests sent on the X connection,
  calls of the consumer callback) is returned as a list of effects, in the order in which
  the code performs them. The monotonic clock read by \<^verbatim>\<open>clock_gettime\<close> is an
  argument of the handler. Logging is not modelled.

  Integer widths are those of an LP64 platform: \<^verbatim>\<open>uint64_t\<close>, \<^verbatim>\<open>unsigned long\<close>,
  \<^verbatim>\<open>time_t\<close> and \<^verbatim>\<open>long\<close> are 64 bits wide, \<^verbatim>\<open>xcb_window_t\<close> is 32 bits and
  the \<^verbatim>\<open>kind\<close> field of the event is 8 bits.
\<close>

subsection \<open>Data\<close>

type_synonym uint64_t = "64 word"
type_synonym xcb_window_t = "32 word"

text \<open>A \<^verbatim>\<open>void *\<close> and a function pointer are opaque addresses.\<close>

type_synonym pointer = nat
type_synonym vblank_callback_t = nat

text \<open>\<^verbatim>\<open>struct vblank_event\<close> (vblank.h).\<close>

record vblank_event =
  msc :: uint64_t
  ust :: uint64_t

text \<open>
  The fields of \<^verbatim>\<open>xcb_present_complete_notify_event_t\<close> (xcb/present.h) that the
  handler reads.
\<close>

record xcb_present_complete_notify_event_t =
  kind :: "8 word"
  window :: xcb_window_t
  ust :: uint64_t
  msc :: uint64_t

text \<open>The value of the enumerator in xcb/present.h.\<close>

definition XCB_PRESENT_COMPLETE_KIND_NOTIFY_MSC :: "8 word" where
  "XCB_PRESENT_COMPLETE_KIND_NOTIFY_MSC = 1"

text \<open>\<^verbatim>\<open>struct timespec\<close>, as filled in by \<^verbatim>\<open>clock_gettime\<close>.\<close>

record timespec =
  tv_sec :: "64 word"
  tv_nsec :: "64 word"

datatype vblank_scheduler_type =
    PRESENT_VBLANK_SCHEDULER
  | SGI_VIDEO_VSYNC_VBLANK_SCHEDULER

record vblank_scheduler =
  type :: vblank_scheduler_type
  user_data :: pointer
  callback :: vblank_callback_t

text \<open>
  The part of libev's \<^verbatim>\<open>ev_timer\<close> watcher that the scheduler depends on: whether the
  watcher is active, the delay and the repeat interval given to \<^verbatim>\<open>ev_timer_set\<close>.
  The C code passes the delay as a \<^verbatim>\<open>double\<close> in seconds,
  \<^verbatim>\<open>(double)(cne->ust - now_us) / 1000000.0\<close>; the record keeps the 64-bit number of
  microseconds before that conversion.
\<close>

record ev_timer =
  active :: bool
  after_us :: uint64_t
  repeat_us :: uint64_t

record present_vblank_scheduler =
  base :: vblank_scheduler
  last_msc :: uint64_t
  last_ust :: uint64_t
  callback_timer :: ev_timer
  vblank_event_requested :: bool

text \<open>
  What a function does to its environment: a call of \<^verbatim>\<open>x_request_vblank_event\<close> on
  the connection, with the window and the target msc, or a call of the consumer callback
  with the event and the user data.
\<close>

datatype effect =
    X_request_vblank_event xcb_window_t uint64_t
  | Callback vblank_callback_t vblank_event pointer

text \<open>
  The assertions of vblank.c. A failed \<^verbatim>\<open>assert\<close> aborts the process, unless the
  file is compiled with \<^verbatim>\<open>NDEBUG\<close>, when \<^verbatim>\<open>assert\<close> expands to nothing. The build
  configuration is not part of the sources, so it is a parameter \<open>ndebug\<close> of the model.
\<close>

datatype abort =
    Assert_type_is_present
  | Assert_vblank_event_requested
  | Assert_timer_not_active

subsection \<open>The libev timer\<close>

definition ev_timer_init :: "uint64_t \<Rightarrow> uint64_t \<Rightarrow> ev_timer" where
  "ev_timer_init after rep = \<lparr>active = False, after_us = after, repeat_us = rep\<rparr>"

definition ev_is_active :: "ev_timer \<Rightarrow> bool" where
  "ev_is_active w = active w"

definition ev_timer_set :: "ev_timer \<Rightarrow> uint64_t \<Rightarrow> uint64_t \<Rightarrow> ev_timer" where
  "ev_timer_set w after rep = w\<lparr>after_us := after, repeat_us := rep\<rparr>"

text \<open>Starting an active watcher does nothing.\<close>

definition ev_timer_start :: "ev_timer \<Rightarrow> ev_timer" where
  "ev_timer_start w = (if active w then w else w\<lparr>active := True\<rparr>)"

subsection \<open>vblank.c\<close>

definition present_vblank_callback :: "present_vblank_scheduler \<Rightarrow> effect list" where
  "present_vblank_callback sched =
     [Callback (callback (base sched))
        \<lparr>vblank_event.msc = last_msc sched, ust = last_ust sched\<rparr>
        (user_data (base sched))]"

text \<open>\<^verbatim>\<open>ccalloc\<close> zeroes the structure.\<close>

definition present_vblank_scheduler_new ::
    "vblank_callback_t \<Rightarrow> pointer \<Rightarrow> present_vblank_scheduler" where
  "present_vblank_scheduler_new cb ud =
     \<lparr>base = \<lparr>type = PRESENT_VBLANK_SCHEDULER, user_data = ud, callback = cb\<rparr>,
      last_msc = 0,
      last_ust = 0,
      callback_timer = ev_timer_init 0 0,
      vblank_event_requested = False\<rparr>"

definition vblank_scheduler_new ::
    "vblank_callback_t \<Rightarrow> pointer \<Rightarrow> present_vblank_scheduler" where
  "vblank_scheduler_new cb ud = present_vblank_scheduler_new cb ud"

text \<open>The scheduler is not written to; the result is the return value and the effects.\<close>

definition present_vblank_scheduler_schedule ::
    "present_vblank_scheduler \<Rightarrow> xcb_window_t \<Rightarrow> bool \<times> effect list" where
  "present_vblank_scheduler_schedule sched win =
     (True, [X_request_vblank_event win (last_msc sched + 1)])"

text \<open>
  The \<^verbatim>\<open>default: assert(false)\<close> branch of the switch has no counterpart: the
  datatype has the two enumerators only.
\<close>

definition vblank_scheduler_schedule ::
    "present_vblank_scheduler \<Rightarrow> xcb_window_t \<Rightarrow> bool \<times> effect list" where
  "vblank_scheduler_schedule sched win =
     (case type (base sched) of
        PRESENT_VBLANK_SCHEDULER \<Rightarrow> present_vblank_scheduler_schedule sched win
      | SGI_VIDEO_VSYNC_VBLANK_SCHEDULER \<Rightarrow> (False, []))"

text \<open>
  \<^verbatim>\<open>now.tv_sec * 1000000UL + now.tv_nsec / 1000\<close>: the product and the sum are
  computed in \<^verbatim>\<open>unsigned long\<close>, the quotient in \<^verbatim>\<open>long\<close> (truncating).
\<close>

definition now_us :: "timespec \<Rightarrow> uint64_t" where
  "now_us now = tv_sec now * 1000000 + word_of_int (sint (tv_nsec now) sdiv 1000)"

definition event_is_invalid ::
    "present_vblank_scheduler \<Rightarrow> xcb_present_complete_notify_event_t \<Rightarrow> bool" where
  "event_is_invalid sched cne \<longleftrightarrow> msc cne \<le> last_msc sched \<or> ust cne = 0"

definition handle_present_complete_notify ::
    "bool \<Rightarrow> present_vblank_scheduler \<Rightarrow> timespec \<Rightarrow> xcb_present_complete_notify_event_t
      \<Rightarrow> abort + present_vblank_scheduler \<times> effect list" where
  "handle_present_complete_notify ndebug sched now cne =
     (if \<not> ndebug \<and> type (base sched) \<noteq> PRESENT_VBLANK_SCHEDULER
      then Inl Assert_type_is_present
      else if kind cne \<noteq> XCB_PRESENT_COMPLETE_KIND_NOTIFY_MSC
      then Inr (sched, [])
      else if \<not> ndebug \<and> \<not> vblank_event_requested sched
      then Inl Assert_vblank_event_requested
      else if event_is_invalid sched cne
      then Inr (sched, [X_request_vblank_event (window cne) (last_msc sched + 1)])
      else
        let sched = sched\<lparr>vblank_event_requested := False\<rparr>;
            sched = sched\<lparr>last_ust := ust cne\<rparr>;
            sched = sched\<lparr>last_msc := msc cne\<rparr>
        in
          if now_us now > ust cne
          then Inr (sched,
                 [Callback (callback (base sched))
                    \<lparr>vblank_event.msc = msc cne, ust = ust cne\<rparr>
                    (user_data (base sched))])
          else if \<not> ndebug \<and> ev_is_active (callback_timer sched)
          then Inl Assert_timer_not_active
          else Inr (sched\<lparr>callback_timer :=
                      ev_timer_start
                        (ev_timer_set (callback_timer sched) (ust cne - now_us now) 0)\<rparr>,
                    []))"

subsection \<open>The event loop\<close>

text \<open>
  When an active timer expires, libev stops it if its repeat interval is 0 and then calls
  its callback, here \<^verbatim>\<open>present_vblank_callback\<close>. A timer that is not active never
  expires.
\<close>

definition timer_expire ::
    "present_vblank_scheduler \<Rightarrow> present_vblank_scheduler \<times> effect list" where
  "timer_expire sched =
     (if active (callback_timer sched)
      then
        let w = callback_timer sched;
            sched = sched\<lparr>callback_timer := w\<lparr>active := (repeat_us w \<noteq> 0)\<rparr>\<rparr>
        in (sched, present_vblank_callback sched)
      else (sched, []))"

text \<open>
  What the owner of a scheduler can do with it: call \<^verbatim>\<open>vblank_scheduler_schedule\<close>
  for a window, pass a PresentCompleteNotify event to the handler (with the time that
  \<^verbatim>\<open>clock_gettime\<close> returns in that call), or return to the event loop and let the
  timer expire.
\<close>

datatype op =
    Schedule xcb_window_t
  | Notify timespec xcb_present_complete_notify_event_t
  | Timer_expire

fun exec ::
    "bool \<Rightarrow> present_vblank_scheduler \<Rightarrow> op \<Rightarrow> abort + present_vblank_scheduler \<times> effect list"
where
  "exec ndebug sched (Schedule win) = Inr (sched, snd (vblank_scheduler_schedule sched win))"
| "exec ndebug sched (Notify now cne) = handle_present_complete_notify ndebug sched now cne"
| "exec ndebug sched Timer_expire = Inr (timer_expire sched)"

text \<open>A sequence of operations stops at the first failed assertion.\<close>

fun run ::
    "bool \<Rightarrow> present_vblank_scheduler \<Rightarrow> op list
      \<Rightarrow> abort + present_vblank_scheduler \<times> effect list"
where
  "run ndebug sched [] = Inr (sched, [])"
| "run ndebug sched (x # xs) =
     (case exec ndebug sched x of
        Inl e \<Rightarrow> Inl e
      | Inr (sched', es) \<Rightarrow>
          (case run ndebug sched' xs of
             Inl e \<Rightarrow> Inl e
           | Inr (sched'', es') \<Rightarrow> Inr (sched'', es @ es')))"

text \<open>The events that the consumer callback was called with, in order.\<close>

fun callback_events :: "effect list \<Rightarrow> vblank_event list" where
  "callback_events [] = []"
| "callback_events (Callback cb ev ud # es) = ev # callback_events es"
| "callback_events (X_request_vblank_event win m # es) = callback_events es"

text \<open>
  The handler accepts an event when it passes the kind check and the validity check.
  The accepted events of a sequence of operations, in order:
\<close>

definition accepts ::
    "present_vblank_scheduler \<Rightarrow> xcb_present_complete_notify_event_t \<Rightarrow> bool" where
  "accepts sched cne \<longleftrightarrow>
     kind cne = XCB_PRESENT_COMPLETE_KIND_NOTIFY_MSC \<and> \<not> event_is_invalid sched cne"

fun accepted_of :: "present_vblank_scheduler \<Rightarrow> op \<Rightarrow> vblank_event list" where
  "accepted_of sched (Notify now cne) =
     (if accepts sched cne then [\<lparr>vblank_event.msc = msc cne, ust = ust cne\<rparr>] else [])"
| "accepted_of sched (Schedule win) = []"
| "accepted_of sched Timer_expire = []"

fun accepted_events ::
    "bool \<Rightarrow> present_vblank_scheduler \<Rightarrow> op list \<Rightarrow> vblank_event list" where
  "accepted_events ndebug sched [] = []"
| "accepted_events ndebug sched (x # xs) =
     (case exec ndebug sched x of
        Inl e \<Rightarrow> []
      | Inr (sched', es) \<Rightarrow> accepted_of sched x @ accepted_events ndebug sched' xs)"

text \<open>
  An accepted event reaches the timer branch of the handler when the clock has not
  passed its ust.
\<close>

definition arms_timer ::
    "present_vblank_scheduler \<Rightarrow> timespec \<Rightarrow> xcb_present_complete_notify_event_t \<Rightarrow> bool" where
  "arms_timer sched now cne \<longleftrightarrow> accepts sched cne \<and> \<not> now_us now > ust cne"

text \<open>
  A sequence of operations in which every notification is handled only after the timer
  that an earlier notification armed, if any, has expired. \<open>pending\<close> says that a
  notification has reached the timer branch and no expiry has followed yet.
\<close>

fun pending_after :: "bool \<Rightarrow> present_vblank_scheduler \<Rightarrow> op \<Rightarrow> bool" where
  "pending_after pending sched (Notify now cne) = (pending \<or> arms_timer sched now cne)"
| "pending_after pending sched (Schedule win) = pending"
| "pending_after pending sched Timer_expire = False"

fun notify_allowed :: "bool \<Rightarrow> op \<Rightarrow> bool" where
  "notify_allowed pending (Notify now cne) = (\<not> pending)"
| "notify_allowed pending (Schedule win) = True"
| "notify_allowed pending Timer_expire = True"

fun valid_sequence :: "bool \<Rightarrow> bool \<Rightarrow> present_vblank_scheduler \<Rightarrow> op list \<Rightarrow> bool" where
  "valid_sequence ndebug pending sched [] = True"
| "valid_sequence ndebug pending sched (x # xs) =
     (notify_allowed pending x \<and>
      (case exec ndebug sched x of
         Inl e \<Rightarrow> True
       | Inr (sched', es) \<Rightarrow> valid_sequence ndebug (pending_after pending sched x) sched' xs))"

text \<open>The event that an active timer will deliver when it expires.\<close>

definition pending_callback :: "present_vblank_scheduler \<Rightarrow> vblank_event list" where
  "pending_callback sched =
     (if active (callback_timer sched)
      then [\<lparr>vblank_event.msc = last_msc sched, ust = last_ust sched\<rparr>] else [])"

text \<open>
  The invariant of a valid sequence: while the timer is active, a notification has armed
  it and no expiry has followed, and it is a one-shot timer.
\<close>

definition timer_inv :: "bool \<Rightarrow> present_vblank_scheduler \<Rightarrow> bool" where
  "timer_inv pending sched \<longleftrightarrow>
     (active (callback_timer sched) \<longrightarrow> pending \<and> repeat_us (callback_timer sched) = 0)"

section \<open>Scheduling\<close>

text \<open>
  C5. With \<open>last_msc = N\<close>, \<^verbatim>\<open>vblank_scheduler_schedule\<close> on a Present scheduler
  issues exactly one request, for \<open>N + 1\<close> (in \<^verbatim>\<open>uint64_t\<close>) on the given window, and
  returns true; on an SGI video sync scheduler it returns false and issues no request.
\<close>

theorem schedule_requests_next_msc:
  "(type (base sched) = PRESENT_VBLANK_SCHEDULER \<longrightarrow>
      vblank_scheduler_schedule sched win =
        (True, [X_request_vblank_event win (last_msc sched + 1)])) \<and>
   (type (base sched) = SGI_VIDEO_VSYNC_VBLANK_SCHEDULER \<longrightarrow>
      vblank_scheduler_schedule sched win = (False, []))"
  by (simp add: vblank_scheduler_schedule_def present_vblank_scheduler_schedule_def)

theorem schedule_requests_next_msc_witness:
  "vblank_scheduler_schedule ((vblank_scheduler_new 7 9)\<lparr>last_msc := 100\<rparr>) 3 =
     (True, [X_request_vblank_event 3 101]) \<and>
   vblank_scheduler_schedule
     ((vblank_scheduler_new 7 9)
        \<lparr>base := \<lparr>type = SGI_VIDEO_VSYNC_VBLANK_SCHEDULER, user_data = 9, callback = 7\<rparr>\<rparr>) 3 =
     (False, [])"
  using schedule_requests_next_msc [of "(vblank_scheduler_new 7 9)\<lparr>last_msc := 100\<rparr>" 3]
    schedule_requests_next_msc
      [of "(vblank_scheduler_new 7 9)
             \<lparr>base := \<lparr>type = SGI_VIDEO_VSYNC_VBLANK_SCHEDULER, user_data = 9, callback = 7\<rparr>\<rparr>" 3]
  by (simp add: vblank_scheduler_new_def present_vblank_scheduler_new_def)

text \<open>
  C6. The header promises that \<^verbatim>\<open>vblank_scheduler_schedule\<close> does nothing and returns
  false when an event is already scheduled for the current vblank. The function does not
  look at \<open>vblank_event_requested\<close>: with the flag set it still issues a request and
  returns true, and two calls in a row on a new scheduler issue two requests for the
  same msc.
\<close>

theorem schedule_ignores_pending_request:
  "vblank_scheduler_schedule
     ((vblank_scheduler_new 7 9)\<lparr>last_msc := 100, vblank_event_requested := True\<rparr>) 3 =
     (True, [X_request_vblank_event 3 101]) \<and>
   run False (vblank_scheduler_new 7 9) [Schedule 3, Schedule 3] =
     Inr (vblank_scheduler_new 7 9, [X_request_vblank_event 3 1, X_request_vblank_event 3 1])"
  by (simp add: vblank_scheduler_schedule_def present_vblank_scheduler_schedule_def
      vblank_scheduler_new_def present_vblank_scheduler_new_def)

section \<open>The notification handler\<close>

text \<open>
  C8. A notification whose kind is not \<^verbatim>\<open>XCB_PRESENT_COMPLETE_KIND_NOTIFY_MSC\<close> makes
  the handler return with the scheduler unchanged (counters, flag and timer) and without
  any request or callback. The only check before the kind test is the assertion that the
  scheduler is a Present scheduler.
\<close>

theorem other_kind_is_ignored:
  assumes "kind cne \<noteq> XCB_PRESENT_COMPLETE_KIND_NOTIFY_MSC"
    and "ndebug \<or> type (base sched) = PRESENT_VBLANK_SCHEDULER"
  shows "handle_present_complete_notify ndebug sched now cne = Inr (sched, [])"
  using assms by (auto simp: handle_present_complete_notify_def)

theorem other_kind_is_ignored_witness:
  "handle_present_complete_notify False
     ((vblank_scheduler_new 7 9)\<lparr>last_msc := 100\<rparr>)
     \<lparr>tv_sec = 5, tv_nsec = 500000\<rparr>
     \<lparr>kind = 0, window = 3, ust = 5000000, msc = 101\<rparr> =
   Inr ((vblank_scheduler_new 7 9)\<lparr>last_msc := 100\<rparr>, [])"
  by (rule other_kind_is_ignored)
    (simp_all add: XCB_PRESENT_COMPLETE_KIND_NOTIFY_MSC_def vblank_scheduler_new_def
      present_vblank_scheduler_new_def)







section \<open>Auxiliary facts\<close>

lemma callback_events_append:
  "callback_events (es @ es') = callback_events es @ callback_events es'"
  by (induction es rule: callback_events.induct) simp_all

lemma handler_cases:
  assumes "handle_present_complete_notify ndebug sched now cne = Inr (sched', es)"
  shows "(\<not> accepts sched cne \<and> sched' = sched \<and> callback_events es = []) \<or>
         (accepts sched cne \<and> now_us now > ust cne \<and>
            sched' = sched\<lparr>vblank_event_requested := False, last_ust := ust cne,
                           last_msc := msc cne\<rparr> \<and>
            callback_events es = [\<lparr>vblank_event.msc = msc cne, ust = ust cne\<rparr>]) \<or>
         (accepts sched cne \<and> \<not> now_us now > ust cne \<and>
            (ndebug \<or> \<not> active (callback_timer sched)) \<and>
            sched' = sched\<lparr>vblank_event_requested := False, last_ust := ust cne,
                           last_msc := msc cne,
                           callback_timer :=
                             \<lparr>active = True, after_us = ust cne - now_us now, repeat_us = 0\<rparr>\<rparr> \<and>
            es = [])"
  using assms
  by (auto simp: handle_present_complete_notify_def accepts_def Let_def ev_is_active_def
      ev_timer_start_def ev_timer_set_def split: if_splits)


lemma timer_expire_cases:
  "timer_expire sched =
     (if active (callback_timer sched)
      then (sched\<lparr>callback_timer := (callback_timer sched)
                     \<lparr>active := (repeat_us (callback_timer sched) \<noteq> 0)\<rparr>\<rparr>,
            [Callback (callback (base sched))
               \<lparr>vblank_event.msc = last_msc sched, ust = last_ust sched\<rparr>
               (user_data (base sched))])
      else (sched, []))"
  by (simp add: timer_expire_def present_vblank_callback_def Let_def)

lemma schedule_effects:
  "callback_events (snd (vblank_scheduler_schedule sched win)) = []"
  by (simp add: vblank_scheduler_schedule_def present_vblank_scheduler_schedule_def
      split: vblank_scheduler_type.split)

lemma exec_flag:
  assumes "exec ndebug sched x = Inr (sched', es)" and "\<not> vblank_event_requested sched"
  shows "\<not> vblank_event_requested sched'"
proof (cases x)
  case (Schedule win)
  with assms show ?thesis by auto
next
  case (Notify now cne)
  with assms have "handle_present_complete_notify ndebug sched now cne = Inr (sched', es)"
    by simp
  from handler_cases [OF this] assms(2) show ?thesis by auto
next
  case Timer_expire
  with assms show ?thesis by (auto simp: timer_expire_cases split: if_splits)
qed

lemma run_flag:
  "run ndebug sched ops = Inr (sched', es) \<Longrightarrow> \<not> vblank_event_requested sched
    \<Longrightarrow> \<not> vblank_event_requested sched'"
proof (induction ops arbitrary: sched es)
  case Nil
  then show ?case by simp
next
  case (Cons x xs)
  then show ?case
    by (auto split: sum.splits prod.splits dest: exec_flag)
qed

lemma exec_last:
  assumes "exec ndebug sched x = Inr (sched', es)"
  shows "(accepted_of sched x = [] \<and> last_msc sched' = last_msc sched \<and>
            last_ust sched' = last_ust sched) \<or>
         (\<exists>e. accepted_of sched x = [e] \<and> last_msc sched < vblank_event.msc e \<and>
            last_msc sched' = vblank_event.msc e \<and> last_ust sched' = vblank_event.ust e)"
proof (cases x)
  case (Schedule win)
  with assms show ?thesis by auto
next
  case (Notify now cne)
  with assms have "handle_present_complete_notify ndebug sched now cne = Inr (sched', es)"
    by simp
  from handler_cases [OF this] Notify show ?thesis
    by (auto simp: accepts_def event_is_invalid_def not_le)
next
  case Timer_expire
  with assms show ?thesis by (auto simp: timer_expire_cases split: if_splits)
qed

lemma accepted_events_sorted:
  "sorted_wrt (<) (map vblank_event.msc (accepted_events ndebug sched ops)) \<and>
   (\<forall>e \<in> set (accepted_events ndebug sched ops). last_msc sched < vblank_event.msc e)"
proof (induction ops arbitrary: sched)
  case Nil
  then show ?case by simp
next
  case (Cons x xs)
  show ?case
  proof (cases "exec ndebug sched x")
    case (Inl e)
    then show ?thesis by simp
  next
    case (Inr r)
    obtain sched' es where r: "r = (sched', es)" by (cases r)
    from Inr r have ex: "exec ndebug sched x = Inr (sched', es)" by simp
    note IH = Cons.IH [of sched']
    from exec_last [OF ex] show ?thesis
    proof
      assume "accepted_of sched x = [] \<and> last_msc sched' = last_msc sched \<and>
            last_ust sched' = last_ust sched"
      with IH ex show ?thesis by simp
    next
      assume "\<exists>e. accepted_of sched x = [e] \<and> last_msc sched < vblank_event.msc e \<and>
            last_msc sched' = vblank_event.msc e \<and> last_ust sched' = vblank_event.ust e"
      then obtain e where e: "accepted_of sched x = [e]" "last_msc sched < vblank_event.msc e"
        "last_msc sched' = vblank_event.msc e" by blast
      with IH ex show ?thesis by (auto intro: less_trans)
    qed
  qed
qed

lemma run_last:
  "run ndebug sched ops = Inr (sched', es) \<Longrightarrow>
   (accepted_events ndebug sched ops = [] \<longrightarrow>
      last_msc sched' = last_msc sched \<and> last_ust sched' = last_ust sched) \<and>
   (accepted_events ndebug sched ops \<noteq> [] \<longrightarrow>
      last_msc sched' = vblank_event.msc (last (accepted_events ndebug sched ops)) \<and>
      last_ust sched' = vblank_event.ust (last (accepted_events ndebug sched ops)))"
proof (induction ops arbitrary: sched es)
  case Nil
  then show ?case by simp
next
  case (Cons x xs)
  from Cons.prems obtain s1 es1 es2 where
    ex: "exec ndebug sched x = Inr (s1, es1)" and rn: "run ndebug s1 xs = Inr (sched', es2)"
    by (auto split: sum.splits prod.splits)
  note IH = Cons.IH [OF rn]
  from exec_last [OF ex] IH ex show ?case
    by (auto simp: last_append)
qed


lemma exec_valid_step:
  assumes "exec ndebug sched x = Inr (sched', es)"
    and "notify_allowed pending x" and "timer_inv pending sched"
  shows "timer_inv (pending_after pending sched x) sched' \<and>
    pending_callback sched @ accepted_of sched x = callback_events es @ pending_callback sched'"
proof (cases x)
  case (Schedule win)
  with assms show ?thesis by (auto simp: schedule_effects)
next
  case (Notify now cne)
  with assms have h: "handle_present_complete_notify ndebug sched now cne = Inr (sched', es)"
    and "\<not> pending" by simp_all
  with assms(3) have inactive: "\<not> active (callback_timer sched)"
    by (simp add: timer_inv_def)
  from handler_cases [OF h] inactive Notify show ?thesis
    by (auto simp: timer_inv_def pending_callback_def arms_timer_def)
next
  case Timer_expire
  with assms show ?thesis
    by (auto simp: timer_expire_cases timer_inv_def pending_callback_def split: if_splits)
qed

lemma run_valid:
  "run ndebug sched ops = Inr (sched', es) \<Longrightarrow> valid_sequence ndebug pending sched ops
    \<Longrightarrow> timer_inv pending sched
    \<Longrightarrow> pending_callback sched @ accepted_events ndebug sched ops =
          callback_events es @ pending_callback sched'"
proof (induction ops arbitrary: sched es pending)
  case Nil
  then show ?case by simp
next
  case (Cons x xs)
  from Cons.prems(1) obtain s1 es1 es2 where
    ex: "exec ndebug sched x = Inr (s1, es1)" and rn: "run ndebug s1 xs = Inr (sched', es2)"
    and es: "es = es1 @ es2"
    by (auto split: sum.splits prod.splits)
  from Cons.prems(2) ex have al: "notify_allowed pending x"
    and v: "valid_sequence ndebug (pending_after pending sched x) s1 xs" by simp_all
  from exec_valid_step [OF ex al Cons.prems(3)]
  have inv: "timer_inv (pending_after pending sched x) s1"
    and st: "pending_callback sched @ accepted_of sched x =
      callback_events es1 @ pending_callback s1" by simp_all
  from Cons.IH [OF rn v inv]
  have "pending_callback s1 @ accepted_events ndebug s1 xs =
    callback_events es2 @ pending_callback sched'" .
  with st ex es show ?case
    by (simp add: callback_events_append) (metis append.assoc)
qed

lemma run_valid_prefix:
  "run ndebug sched pre = Inr (sched', es) \<Longrightarrow> valid_sequence ndebug pending sched (pre @ rest)
    \<Longrightarrow> timer_inv pending sched
    \<Longrightarrow> \<exists>pending'. valid_sequence ndebug pending' sched' rest \<and> timer_inv pending' sched'"
proof (induction pre arbitrary: sched es pending)
  case Nil
  then show ?case by auto
next
  case (Cons x xs)
  from Cons.prems(1) obtain s1 es1 es2 where
    ex: "exec ndebug sched x = Inr (s1, es1)" and rn: "run ndebug s1 xs = Inr (sched', es2)"
    by (auto split: sum.splits prod.splits)
  from Cons.prems(2) ex have al: "notify_allowed pending x"
    and v: "valid_sequence ndebug (pending_after pending sched x) s1 (xs @ rest)" by simp_all
  from exec_valid_step [OF ex al Cons.prems(3)]
  have inv: "timer_inv (pending_after pending sched x) s1" by simp
  from Cons.IH [OF rn v inv] show ?case .
qed

lemma exec_msc_nonzero:
  assumes "exec ndebug sched x = Inr (sched', es)"
    and "active (callback_timer sched) \<longrightarrow> last_msc sched \<noteq> 0"
  shows "(active (callback_timer sched') \<longrightarrow> last_msc sched' \<noteq> 0) \<and>
    (\<forall>e \<in> set (callback_events es). vblank_event.msc e \<noteq> 0)"
proof (cases x)
  case (Schedule win)
  with assms show ?thesis by (auto simp: schedule_effects)
next
  case (Notify now cne)
  with assms have h: "handle_present_complete_notify ndebug sched now cne = Inr (sched', es)"
    by simp
  have nz: "accepts sched cne \<Longrightarrow> msc cne \<noteq> 0"
    by (auto simp: accepts_def event_is_invalid_def)
  from handler_cases [OF h] assms(2) nz show ?thesis by auto
next
  case Timer_expire
  with assms show ?thesis
    by (auto simp: timer_expire_cases split: if_splits)
qed

lemma run_msc_nonzero:
  "run ndebug sched ops = Inr (sched', es) \<Longrightarrow>
   active (callback_timer sched) \<longrightarrow> last_msc sched \<noteq> 0 \<Longrightarrow>
   \<forall>e \<in> set (callback_events es). vblank_event.msc e \<noteq> 0"
proof (induction ops arbitrary: sched es)
  case Nil
  then show ?case by simp
next
  case (Cons x xs)
  from Cons.prems(1) obtain s1 es1 es2 where
    ex: "exec ndebug sched x = Inr (s1, es1)" and rn: "run ndebug s1 xs = Inr (sched', es2)"
    and es: "es = es1 @ es2"
    by (auto split: sum.splits prod.splits)
  from exec_msc_nonzero [OF ex Cons.prems(2)]
  have a: "active (callback_timer s1) \<longrightarrow> last_msc s1 \<noteq> 0"
    and b: "\<forall>e \<in> set (callback_events es1). vblank_event.msc e \<noteq> 0" by simp_all
  from Cons.IH [OF rn a] b es show ?case
    by (auto simp: callback_events_append)
qed

lemma exec_base:
  assumes "exec ndebug sched x = Inr (sched', es)"
  shows "base sched' = base sched"
proof (cases x)
  case (Schedule win)
  with assms show ?thesis by auto
next
  case (Notify now cne)
  with assms have "handle_present_complete_notify ndebug sched now cne = Inr (sched', es)"
    by simp
  from handler_cases [OF this] show ?thesis by auto
next
  case Timer_expire
  with assms show ?thesis by (auto simp: timer_expire_cases split: if_splits)
qed

lemma run_base:
  "run ndebug sched ops = Inr (sched', es) \<Longrightarrow> base sched' = base sched"
proof (induction ops arbitrary: sched es)
  case Nil
  then show ?case by simp
next
  case (Cons x xs)
  then show ?case
    by (auto split: sum.splits prod.splits dest: exec_base)
qed

lemma new_simps:
  "base (vblank_scheduler_new cb ud) =
     \<lparr>type = PRESENT_VBLANK_SCHEDULER, user_data = ud, callback = cb\<rparr>"
  "last_msc (vblank_scheduler_new cb ud) = 0"
  "last_ust (vblank_scheduler_new cb ud) = 0"
  "callback_timer (vblank_scheduler_new cb ud) =
     \<lparr>active = False, after_us = 0, repeat_us = 0\<rparr>"
  "vblank_event_requested (vblank_scheduler_new cb ud) = False"
  by (simp_all add: vblank_scheduler_new_def present_vblank_scheduler_new_def ev_timer_init_def)

lemmas eval_defs =
  handle_present_complete_notify_def event_is_invalid_def Let_def
  XCB_PRESENT_COMPLETE_KIND_NOTIFY_MSC_def now_us_def signed_divide_int_def
  ev_is_active_def ev_timer_start_def ev_timer_set_def ev_timer_init_def
  vblank_scheduler_new_def present_vblank_scheduler_new_def
  timer_expire_def present_vblank_callback_def
  vblank_scheduler_schedule_def present_vblank_scheduler_schedule_def
  accepts_def arms_timer_def pending_callback_def

lemma handler_timer_abort:
  "handle_present_complete_notify ndebug sched now cne = Inl Assert_timer_not_active
    \<Longrightarrow> active (callback_timer sched)"
  by (auto simp: handle_present_complete_notify_def Let_def ev_is_active_def
      split: if_splits)

lemma exec_timer_abort:
  assumes "exec ndebug sched x = Inl Assert_timer_not_active"
    and "notify_allowed pending x" and "timer_inv pending sched"
  shows False
proof (cases x)
  case (Notify now cne)
  with assms(1) have "active (callback_timer sched)"
    by (auto dest: handler_timer_abort)
  with assms(2,3) Notify show ?thesis by (simp add: timer_inv_def)
qed (use assms in auto)

lemma run_timer_abort:
  "valid_sequence ndebug pending sched ops \<Longrightarrow> timer_inv pending sched
    \<Longrightarrow> run ndebug sched ops \<noteq> Inl Assert_timer_not_active"
proof (induction ops arbitrary: sched pending)
  case Nil
  then show ?case by simp
next
  case (Cons x xs)
  show ?case
  proof (cases "exec ndebug sched x")
    case (Inl e)
    with Cons.prems exec_timer_abort [of ndebug sched x pending] show ?thesis
      by auto
  next
    case (Inr r)
    obtain s1 es1 where r: "r = (s1, es1)" by (cases r)
    with Inr have ex: "exec ndebug sched x = Inr (s1, es1)" by simp
    from Cons.prems(1) ex have al: "notify_allowed pending x"
      and v: "valid_sequence ndebug (pending_after pending sched x) s1 xs" by simp_all
    from exec_valid_step [OF ex al Cons.prems(2)]
    have inv: "timer_inv (pending_after pending sched x) s1" by simp
    from Cons.IH [OF v inv] ex show ?thesis
      by (auto split: sum.splits prod.splits)
  qed
qed

section \<open>The timer\<close>

text \<open>
  C3 (as the code has it). On a scheduler whose timer is not active, and which is a
  Present scheduler with \<open>vblank_event_requested\<close> true unless the assertions are
  compiled out, a valid event that is handled when the clock has not passed its \<open>ust\<close>
  calls no callback in the handler; the handler stores the event and arms the one-shot
  timer (repeat 0) for \<open>ust - now\<close> microseconds. When the timer expires,
  \<^verbatim>\<open>present_vblank_callback\<close> calls the consumer callback once, with \<open>last_msc\<close>
  and \<open>last_ust\<close> as they are in the scheduler at that moment: these are the \<open>msc\<close>
  and \<open>ust\<close> of the event that armed the timer as long as no other event has been
  accepted since. A second expiry does nothing.
\<close>

theorem early_event_arms_timer:
  assumes "kind cne = XCB_PRESENT_COMPLETE_KIND_NOTIFY_MSC"
    and "last_msc sched < msc cne" and "ust cne \<noteq> 0"
    and "now_us now \<le> ust cne"
    and "\<not> ev_is_active (callback_timer sched)"
    and "ndebug \<or>
      type (base sched) = PRESENT_VBLANK_SCHEDULER \<and> vblank_event_requested sched"
  shows "\<exists>sched'.
    handle_present_complete_notify ndebug sched now cne = Inr (sched', []) \<and>
    sched' = sched\<lparr>vblank_event_requested := False, last_ust := ust cne,
                   last_msc := msc cne,
                   callback_timer :=
                     \<lparr>active = True, after_us = ust cne - now_us now, repeat_us = 0\<rparr>\<rparr> \<and>
    timer_expire sched' =
      (sched'\<lparr>callback_timer :=
                \<lparr>active = False, after_us = ust cne - now_us now, repeat_us = 0\<rparr>\<rparr>,
       [Callback (callback (base sched))
          \<lparr>vblank_event.msc = msc cne, ust = ust cne\<rparr> (user_data (base sched))]) \<and>
    timer_expire (fst (timer_expire sched')) = (fst (timer_expire sched'), []) \<and>
    (\<forall>mid sched'' es.
       run ndebug sched' mid = Inr (sched'', es) \<and>
       active (callback_timer sched'') \<longrightarrow>
       snd (timer_expire sched'') =
         [Callback (callback (base sched))
            \<lparr>vblank_event.msc = last_msc sched'', ust = last_ust sched''\<rparr>
            (user_data (base sched))] \<and>
       (accepted_events ndebug sched' mid = [] \<longrightarrow>
          last_msc sched'' = msc cne \<and> last_ust sched'' = ust cne))"
proof -
  let ?s = "sched\<lparr>vblank_event_requested := False, last_ust := ust cne,
                   last_msc := msc cne,
                   callback_timer :=
                     \<lparr>active = True, after_us = ust cne - now_us now, repeat_us = 0\<rparr>\<rparr>"
  from assms(2,3) have valid: "\<not> event_is_invalid sched cne"
    by (simp add: event_is_invalid_def not_le)
  from assms(4) have early: "\<not> ust cne < now_us now"
    by (simp add: not_less)
  from assms(1,5,6) valid early
  have h: "handle_present_complete_notify ndebug sched now cne = Inr (?s, [])"
    by (auto simp: handle_present_complete_notify_def Let_def
        ev_is_active_def ev_timer_start_def ev_timer_set_def)
  have t1: "timer_expire ?s =
      (?s\<lparr>callback_timer :=
                \<lparr>active = False, after_us = ust cne - now_us now, repeat_us = 0\<rparr>\<rparr>,
       [Callback (callback (base sched))
          \<lparr>vblank_event.msc = msc cne, ust = ust cne\<rparr> (user_data (base sched))])"
    by (simp add: timer_expire_cases)
  have t2: "timer_expire (fst (timer_expire ?s)) = (fst (timer_expire ?s), [])"
    by (simp add: timer_expire_cases)
  have t3: "snd (timer_expire sched'') =
         [Callback (callback (base sched))
            \<lparr>vblank_event.msc = last_msc sched'', ust = last_ust sched''\<rparr>
            (user_data (base sched))] \<and>
       (accepted_events ndebug ?s mid = [] \<longrightarrow>
          last_msc sched'' = msc cne \<and> last_ust sched'' = ust cne)"
    if r: "run ndebug ?s mid = Inr (sched'', es)" and a: "active (callback_timer sched'')"
    for mid sched'' es
  proof -
    from run_base [OF r] have "base sched'' = base sched" by simp
    with a run_last [OF r] show ?thesis by (simp add: timer_expire_cases)
  qed
  from h t1 t2 t3 show ?thesis by blast
qed

theorem early_event_arms_timer_witness:
  "handle_present_complete_notify True
     ((vblank_scheduler_new 7 9)\<lparr>last_msc := 100, last_ust := 4983333\<rparr>)
     \<lparr>tv_sec = 4, tv_nsec = 999000000\<rparr>
     \<lparr>kind = 1, window = 3, ust = 5000000, msc = 101\<rparr> =
   Inr ((vblank_scheduler_new 7 9)
          \<lparr>last_msc := 101, last_ust := 5000000,
            callback_timer := \<lparr>active = True, after_us = 1000, repeat_us = 0\<rparr>\<rparr>, []) \<and>
   timer_expire
     ((vblank_scheduler_new 7 9)
        \<lparr>last_msc := 101, last_ust := 5000000,
          callback_timer := \<lparr>active = True, after_us = 1000, repeat_us = 0\<rparr>\<rparr>) =
     ((vblank_scheduler_new 7 9)
        \<lparr>last_msc := 101, last_ust := 5000000,
          callback_timer := \<lparr>active = False, after_us = 1000, repeat_us = 0\<rparr>\<rparr>,
      [Callback 7 \<lparr>vblank_event.msc = 101, ust = 5000000\<rparr> 9])"
  using early_event_arms_timer
    [of "\<lparr>kind = 1, window = 3, ust = 5000000, msc = 101\<rparr>"
        "(vblank_scheduler_new 7 9)\<lparr>last_msc := 100, last_ust := 4983333\<rparr>"
        "\<lparr>tv_sec = 4, tv_nsec = 999000000\<rparr>" True]
  by (simp add: XCB_PRESENT_COMPLETE_KIND_NOTIFY_MSC_def now_us_def signed_divide_int_def
      ev_is_active_def vblank_scheduler_new_def present_vblank_scheduler_new_def
      ev_timer_init_def)

text \<open>
  C3 as stated fails: the callback of the timer does not get the values captured when
  the timer was armed. On a new scheduler, the event \<open>{101, 5000000}\<close> arrives at
  4999000 and arms the timer; the event \<open>{102, 4999400}\<close> arrives at 4999500, before
  the timer is due, and is delivered at once; the timer then delivers \<open>{102, 4999400}\<close>
  again, and \<open>{101, 5000000}\<close> is never delivered. That is with the assertions
  compiled out; with assertions enabled the handler stops at
  \<^verbatim>\<open>assert(sched->vblank_event_requested)\<close> for the first event and arms nothing.
\<close>

theorem timer_callback_reads_later_event_counterexample:
  "handle_present_complete_notify True
     (vblank_scheduler_new 7 9)
     \<lparr>tv_sec = 4, tv_nsec = 999000000\<rparr>
     \<lparr>kind = 1, window = 3, ust = 5000000, msc = 101\<rparr> =
   Inr (\<lparr>base = \<lparr>type = PRESENT_VBLANK_SCHEDULER, user_data = 9, callback = 7\<rparr>,
         last_msc = 101, last_ust = 5000000,
         callback_timer = \<lparr>active = True, after_us = 1000, repeat_us = 0\<rparr>,
         vblank_event_requested = False\<rparr>, []) \<and>
   handle_present_complete_notify True
     \<lparr>base = \<lparr>type = PRESENT_VBLANK_SCHEDULER, user_data = 9, callback = 7\<rparr>,
      last_msc = 101, last_ust = 5000000,
      callback_timer = \<lparr>active = True, after_us = 1000, repeat_us = 0\<rparr>,
      vblank_event_requested = False\<rparr>
     \<lparr>tv_sec = 4, tv_nsec = 999500000\<rparr>
     \<lparr>kind = 1, window = 3, ust = 4999400, msc = 102\<rparr> =
   Inr (\<lparr>base = \<lparr>type = PRESENT_VBLANK_SCHEDULER, user_data = 9, callback = 7\<rparr>,
         last_msc = 102, last_ust = 4999400,
         callback_timer = \<lparr>active = True, after_us = 1000, repeat_us = 0\<rparr>,
         vblank_event_requested = False\<rparr>,
        [Callback 7 \<lparr>vblank_event.msc = 102, ust = 4999400\<rparr> 9]) \<and>
   timer_expire
     \<lparr>base = \<lparr>type = PRESENT_VBLANK_SCHEDULER, user_data = 9, callback = 7\<rparr>,
      last_msc = 102, last_ust = 4999400,
      callback_timer = \<lparr>active = True, after_us = 1000, repeat_us = 0\<rparr>,
      vblank_event_requested = False\<rparr> =
   (\<lparr>base = \<lparr>type = PRESENT_VBLANK_SCHEDULER, user_data = 9, callback = 7\<rparr>,
     last_msc = 102, last_ust = 4999400,
     callback_timer = \<lparr>active = False, after_us = 1000, repeat_us = 0\<rparr>,
     vblank_event_requested = False\<rparr>,
    [Callback 7 \<lparr>vblank_event.msc = 102, ust = 4999400\<rparr> 9]) \<and>
   handle_present_complete_notify False
     (vblank_scheduler_new 7 9)
     \<lparr>tv_sec = 4, tv_nsec = 999000000\<rparr>
     \<lparr>kind = 1, window = 3, ust = 5000000, msc = 101\<rparr> =
   Inl Assert_vblank_event_requested"
  by (simp add: handle_present_complete_notify_def event_is_invalid_def Let_def
      XCB_PRESENT_COMPLETE_KIND_NOTIFY_MSC_def now_us_def signed_divide_int_def
      ev_is_active_def ev_timer_start_def ev_timer_set_def ev_timer_init_def
      vblank_scheduler_new_def present_vblank_scheduler_new_def
      timer_expire_def present_vblank_callback_def)

section \<open>Sequences of operations\<close>

text \<open>
  C4 (as the code has it). In every sequence of operations on a new scheduler the
  accepted events have strictly increasing \<open>msc\<close>, and \<open>last_msc\<close> and \<open>last_ust\<close>
  are those of the last accepted event. If every notification is handled only after the
  timer armed by an earlier one has expired, the callbacks made so far, followed by the
  one an active timer still owes, are exactly the accepted events in their order: one
  callback per accepted event, in strictly increasing \<open>msc\<close> order.
\<close>

theorem accepted_events_and_callbacks_in_order:
  assumes "run ndebug (vblank_scheduler_new cb ud) ops = Inr (sched', es)"
  shows "sorted_wrt (<)
      (map vblank_event.msc (accepted_events ndebug (vblank_scheduler_new cb ud) ops)) \<and>
    (accepted_events ndebug (vblank_scheduler_new cb ud) ops \<noteq> [] \<longrightarrow>
      last_msc sched' =
        vblank_event.msc (last (accepted_events ndebug (vblank_scheduler_new cb ud) ops)) \<and>
      last_ust sched' =
        vblank_event.ust (last (accepted_events ndebug (vblank_scheduler_new cb ud) ops))) \<and>
    (valid_sequence ndebug False (vblank_scheduler_new cb ud) ops \<longrightarrow>
      callback_events es @ pending_callback sched' =
        accepted_events ndebug (vblank_scheduler_new cb ud) ops \<and>
      sorted_wrt (<) (map vblank_event.msc (callback_events es)))"
proof -
  let ?s = "vblank_scheduler_new cb ud"
  have a: "sorted_wrt (<) (map vblank_event.msc (accepted_events ndebug ?s ops))"
    using accepted_events_sorted [of ndebug ?s ops] by simp
  have c: "callback_events es @ pending_callback sched' = accepted_events ndebug ?s ops \<and>
      sorted_wrt (<) (map vblank_event.msc (callback_events es))"
    if v: "valid_sequence ndebug False ?s ops"
  proof -
    have "timer_inv False ?s" by (simp add: timer_inv_def new_simps)
    from run_valid [OF assms v this]
    have eq: "callback_events es @ pending_callback sched' = accepted_events ndebug ?s ops"
      by (simp add: pending_callback_def new_simps)
    from a have "sorted_wrt (<)
        (map vblank_event.msc (callback_events es @ pending_callback sched'))"
      by (simp only: eq)
    then have "sorted_wrt (<) (map vblank_event.msc (callback_events es))"
      by (simp add: sorted_wrt_append)
    with eq show ?thesis by simp
  qed
  from a run_last [OF assms] c show ?thesis by blast
qed

theorem accepted_events_and_callbacks_in_order_witness:
  "run True (vblank_scheduler_new 7 9)
     [Schedule 3,
      Notify \<lparr>tv_sec = 0, tv_nsec = 16000000\<rparr> \<lparr>kind = 1, window = 3, ust = 16667, msc = 101\<rparr>,
      Timer_expire,
      Schedule 3,
      Notify \<lparr>tv_sec = 0, tv_nsec = 34000000\<rparr> \<lparr>kind = 1, window = 3, ust = 33333, msc = 102\<rparr>] =
   Inr (\<lparr>base = \<lparr>type = PRESENT_VBLANK_SCHEDULER, user_data = 9, callback = 7\<rparr>,
         last_msc = 102, last_ust = 33333,
         callback_timer = \<lparr>active = False, after_us = 667, repeat_us = 0\<rparr>,
         vblank_event_requested = False\<rparr>,
        [X_request_vblank_event 3 1,
         Callback 7 \<lparr>vblank_event.msc = 101, ust = 16667\<rparr> 9,
         X_request_vblank_event 3 102,
         Callback 7 \<lparr>vblank_event.msc = 102, ust = 33333\<rparr> 9]) \<and>
   accepted_events True (vblank_scheduler_new 7 9)
     [Schedule 3,
      Notify \<lparr>tv_sec = 0, tv_nsec = 16000000\<rparr> \<lparr>kind = 1, window = 3, ust = 16667, msc = 101\<rparr>,
      Timer_expire,
      Schedule 3,
      Notify \<lparr>tv_sec = 0, tv_nsec = 34000000\<rparr> \<lparr>kind = 1, window = 3, ust = 33333, msc = 102\<rparr>] =
   [\<lparr>vblank_event.msc = 101, ust = 16667\<rparr>, \<lparr>vblank_event.msc = 102, ust = 33333\<rparr>]"
proof -
  let ?ops = "[Schedule 3,
      Notify \<lparr>tv_sec = 0, tv_nsec = 16000000\<rparr> \<lparr>kind = 1, window = 3, ust = 16667, msc = 101\<rparr>,
      Timer_expire,
      Schedule 3,
      Notify \<lparr>tv_sec = 0, tv_nsec = 34000000\<rparr> \<lparr>kind = 1, window = 3, ust = 33333, msc = 102\<rparr>]"
  let ?s = "\<lparr>base = \<lparr>type = PRESENT_VBLANK_SCHEDULER, user_data = 9, callback = 7\<rparr>,
         last_msc = 102, last_ust = 33333,
         callback_timer = \<lparr>active = False, after_us = 667, repeat_us = 0\<rparr>,
         vblank_event_requested = False\<rparr>"
  let ?es = "[X_request_vblank_event 3 1,
         Callback 7 \<lparr>vblank_event.msc = 101, ust = 16667\<rparr> 9,
         X_request_vblank_event 3 102,
         Callback 7 \<lparr>vblank_event.msc = 102, ust = 33333\<rparr> 9]"
  have r: "run True (vblank_scheduler_new 7 9) ?ops = Inr (?s, ?es)"
    by (simp add: eval_defs)
  have v: "valid_sequence True False (vblank_scheduler_new 7 9) ?ops"
    by (simp add: eval_defs)
  from accepted_events_and_callbacks_in_order [OF r] v
  have "callback_events ?es @ pending_callback ?s =
    accepted_events True (vblank_scheduler_new 7 9) ?ops"
    by blast
  then have "accepted_events True (vblank_scheduler_new 7 9) ?ops =
    [\<lparr>vblank_event.msc = 101, ust = 16667\<rparr>, \<lparr>vblank_event.msc = 102, ust = 33333\<rparr>]"
    by (simp add: pending_callback_def)
  with r show ?thesis by simp
qed

text \<open>
  C4 as stated fails for the callbacks: without the condition on the sequence, an event
  accepted while the timer is active is delivered twice and the event that armed the timer
  never. The callbacks are \<open>{102, 16100}\<close> twice, for the accepted events
  \<open>{101, 16667}\<close> and \<open>{102, 16100}\<close>.
\<close>

theorem callbacks_repeat_later_event_counterexample:
  "run True (vblank_scheduler_new 7 9)
     [Notify \<lparr>tv_sec = 0, tv_nsec = 16000000\<rparr> \<lparr>kind = 1, window = 3, ust = 16667, msc = 101\<rparr>,
      Notify \<lparr>tv_sec = 0, tv_nsec = 16500000\<rparr> \<lparr>kind = 1, window = 3, ust = 16100, msc = 102\<rparr>,
      Timer_expire] =
   Inr (\<lparr>base = \<lparr>type = PRESENT_VBLANK_SCHEDULER, user_data = 9, callback = 7\<rparr>,
         last_msc = 102, last_ust = 16100,
         callback_timer = \<lparr>active = False, after_us = 667, repeat_us = 0\<rparr>,
         vblank_event_requested = False\<rparr>,
        [Callback 7 \<lparr>vblank_event.msc = 102, ust = 16100\<rparr> 9,
         Callback 7 \<lparr>vblank_event.msc = 102, ust = 16100\<rparr> 9]) \<and>
   accepted_events True (vblank_scheduler_new 7 9)
     [Notify \<lparr>tv_sec = 0, tv_nsec = 16000000\<rparr> \<lparr>kind = 1, window = 3, ust = 16667, msc = 101\<rparr>,
      Notify \<lparr>tv_sec = 0, tv_nsec = 16500000\<rparr> \<lparr>kind = 1, window = 3, ust = 16100, msc = 102\<rparr>,
      Timer_expire] =
   [\<lparr>vblank_event.msc = 101, ust = 16667\<rparr>, \<lparr>vblank_event.msc = 102, ust = 16100\<rparr>] \<and>
   \<not> sorted_wrt (<)
     (map vblank_event.msc
       (callback_events
         [Callback 7 \<lparr>vblank_event.msc = 102, ust = 16100\<rparr> 9,
          Callback 7 \<lparr>vblank_event.msc = 102, ust = 16100\<rparr> 9]))"
  by (simp add: eval_defs)

text \<open>
  C7. In a sequence of operations on a new scheduler in which every notification is
  handled only after the timer armed by an earlier one has expired, the timer is inactive
  whenever the handler is called: the assertion of the timer branch holds when that branch
  is reached, and no run of such a sequence stops at it.
\<close>

theorem timer_is_inactive_when_armed:
  assumes "valid_sequence ndebug False (vblank_scheduler_new cb ud)
      (pre @ Notify now cne # post)"
    and "run ndebug (vblank_scheduler_new cb ud) pre = Inr (sched, es)"
  shows "\<not> ev_is_active (callback_timer sched) \<and>
    handle_present_complete_notify ndebug sched now cne \<noteq> Inl Assert_timer_not_active \<and>
    run ndebug (vblank_scheduler_new cb ud) (pre @ Notify now cne # post) \<noteq>
      Inl Assert_timer_not_active"
proof -
  have inv: "timer_inv False (vblank_scheduler_new cb ud)"
    by (simp add: timer_inv_def new_simps)
  from run_valid_prefix [OF assms(2,1) inv] obtain pending where
    "valid_sequence ndebug pending sched (Notify now cne # post)" "timer_inv pending sched"
    by blast
  then have a: "\<not> ev_is_active (callback_timer sched)"
    by (simp add: timer_inv_def ev_is_active_def)
  then have b: "handle_present_complete_notify ndebug sched now cne \<noteq>
      Inl Assert_timer_not_active"
    by (auto dest: handler_timer_abort simp: ev_is_active_def)
  from a b run_timer_abort [OF assms(1) inv] show ?thesis by simp
qed

theorem timer_is_inactive_when_armed_witness:
  "valid_sequence True False (vblank_scheduler_new 7 9)
     [Notify \<lparr>tv_sec = 0, tv_nsec = 16000000\<rparr> \<lparr>kind = 1, window = 3, ust = 16667, msc = 101\<rparr>,
      Timer_expire,
      Notify \<lparr>tv_sec = 0, tv_nsec = 33000000\<rparr> \<lparr>kind = 1, window = 3, ust = 33333, msc = 102\<rparr>] \<and>
   arms_timer
     \<lparr>base = \<lparr>type = PRESENT_VBLANK_SCHEDULER, user_data = 9, callback = 7\<rparr>,
      last_msc = 101, last_ust = 16667,
      callback_timer = \<lparr>active = False, after_us = 667, repeat_us = 0\<rparr>,
      vblank_event_requested = False\<rparr>
     \<lparr>tv_sec = 0, tv_nsec = 33000000\<rparr> \<lparr>kind = 1, window = 3, ust = 33333, msc = 102\<rparr> \<and>
   \<not> ev_is_active (callback_timer
     \<lparr>base = \<lparr>type = PRESENT_VBLANK_SCHEDULER, user_data = 9, callback = 7\<rparr>,
      last_msc = 101, last_ust = 16667,
      callback_timer = \<lparr>active = False, after_us = 667, repeat_us = 0\<rparr>,
      vblank_event_requested = False\<rparr>)"
proof -
  let ?a = "Notify \<lparr>tv_sec = 0, tv_nsec = 16000000\<rparr>
    \<lparr>kind = 1, window = 3, ust = 16667, msc = 101\<rparr>"
  let ?now = "\<lparr>tv_sec = 0, tv_nsec = 33000000\<rparr>"
  let ?cne = "\<lparr>kind = 1, window = 3, ust = 33333, msc = 102\<rparr>"
  let ?s = "\<lparr>base = \<lparr>type = PRESENT_VBLANK_SCHEDULER, user_data = 9, callback = 7\<rparr>,
      last_msc = 101, last_ust = 16667,
      callback_timer = \<lparr>active = False, after_us = 667, repeat_us = 0\<rparr>,
      vblank_event_requested = False\<rparr>"
  have v: "valid_sequence True False (vblank_scheduler_new 7 9)
      ([?a, Timer_expire] @ Notify ?now ?cne # [])"
    by (simp add: eval_defs)
  have r: "run True (vblank_scheduler_new 7 9) [?a, Timer_expire] =
      Inr (?s, [Callback 7 \<lparr>vblank_event.msc = 101, ust = 16667\<rparr> 9])"
    by (simp add: eval_defs)
  have arm: "arms_timer ?s ?now ?cne"
    by (simp add: eval_defs)
  from timer_is_inactive_when_armed [OF v r] v arm show ?thesis by simp
qed

text \<open>
  C9. \<open>vblank_event_requested\<close> is false in a new scheduler, no operation of the
  module turns it from false to true, so it is false after every sequence of operations;
  with assertions enabled, the handler then stops at
  \<^verbatim>\<open>assert(sched->vblank_event_requested)\<close> for every event of kind
  \<^verbatim>\<open>XCB_PRESENT_COMPLETE_KIND_NOTIFY_MSC\<close>.
\<close>

theorem flag_is_never_set:
  "\<not> vblank_event_requested (vblank_scheduler_new cb ud) \<and>
   (exec ndebug sched x = Inr (sched', es) \<and> vblank_event_requested sched' \<longrightarrow>
      vblank_event_requested sched) \<and>
   (run ndebug (vblank_scheduler_new cb ud) ops = Inr (sched'', es') \<longrightarrow>
      \<not> vblank_event_requested sched'' \<and>
      (\<not> ndebug \<and> kind cne = XCB_PRESENT_COMPLETE_KIND_NOTIFY_MSC \<longrightarrow>
         handle_present_complete_notify ndebug sched'' now cne =
           Inl Assert_vblank_event_requested))"
proof -
  have a: "\<not> vblank_event_requested (vblank_scheduler_new cb ud)"
    by (simp add: new_simps)
  have b: "vblank_event_requested sched"
    if "exec ndebug sched x = Inr (sched', es)" "vblank_event_requested sched'"
    using that exec_flag by blast
  have c: "\<not> vblank_event_requested sched'' \<and>
      (\<not> ndebug \<and> kind cne = XCB_PRESENT_COMPLETE_KIND_NOTIFY_MSC \<longrightarrow>
         handle_present_complete_notify ndebug sched'' now cne =
           Inl Assert_vblank_event_requested)"
    if r: "run ndebug (vblank_scheduler_new cb ud) ops = Inr (sched'', es')"
  proof -
    from run_flag [OF r a] have f: "\<not> vblank_event_requested sched''" .
    from run_base [OF r] have "type (base sched'') = PRESENT_VBLANK_SCHEDULER"
      by (simp add: new_simps)
    with f show ?thesis by (simp add: handle_present_complete_notify_def)
  qed
  from a b c show ?thesis by blast
qed

theorem flag_is_never_set_witness:
  "run False (vblank_scheduler_new 7 9)
     [Schedule 3, Notify \<lparr>tv_sec = 0, tv_nsec = 17000000\<rparr>
        \<lparr>kind = 0, window = 3, ust = 16667, msc = 101\<rparr>] =
     Inr (vblank_scheduler_new 7 9, [X_request_vblank_event 3 1]) \<and>
   handle_present_complete_notify False (vblank_scheduler_new 7 9)
     \<lparr>tv_sec = 0, tv_nsec = 17000000\<rparr> \<lparr>kind = 1, window = 3, ust = 16667, msc = 101\<rparr> =
     Inl Assert_vblank_event_requested"
proof -
  have r: "run False (vblank_scheduler_new 7 9)
     [Schedule 3, Notify \<lparr>tv_sec = 0, tv_nsec = 17000000\<rparr>
        \<lparr>kind = 0, window = 3, ust = 16667, msc = 101\<rparr>] =
     Inr (vblank_scheduler_new 7 9, [X_request_vblank_event 3 1])"
    by (simp add: eval_defs)
  have k: "kind \<lparr>kind = 1, window = 3, ust = 16667, msc = 101\<rparr> =
      XCB_PRESENT_COMPLETE_KIND_NOTIFY_MSC"
    by (simp add: XCB_PRESENT_COMPLETE_KIND_NOTIFY_MSC_def)
  from flag_is_never_set
    [of 7 9 False _ _ _ _
        "[Schedule 3, Notify \<lparr>tv_sec = 0, tv_nsec = 17000000\<rparr>
            \<lparr>kind = 0, window = 3, ust = 16667, msc = 101\<rparr>]"
        "vblank_scheduler_new 7 9" "[X_request_vblank_event 3 1]"
        "\<lparr>kind = 1, window = 3, ust = 16667, msc = 101\<rparr>"
        "\<lparr>tv_sec = 0, tv_nsec = 17000000\<rparr>"] r k
  have "handle_present_complete_notify False (vblank_scheduler_new 7 9)
     \<lparr>tv_sec = 0, tv_nsec = 17000000\<rparr> \<lparr>kind = 1, window = 3, ust = 16667, msc = 101\<rparr> =
     Inl Assert_vblank_event_requested"
    by blast
  with r show ?thesis by simp
qed

text \<open>
  C10. An event with \<open>msc = 0\<close> is invalid in every state of the scheduler, since
  \<open>0 \<le> last_msc\<close> in \<^verbatim>\<open>uint64_t\<close>: the handler leaves the scheduler unchanged
  and calls no callback. In every sequence of operations on a new scheduler, no callback
  is called with an event whose \<open>msc\<close> is 0.
\<close>

theorem msc_zero_is_rejected:
  "(msc cne = 0 \<longrightarrow> event_is_invalid sched cne \<and> \<not> accepts sched cne) \<and>
   (msc cne = 0 \<and> handle_present_complete_notify ndebug sched now cne = Inr (sched', es) \<longrightarrow>
      sched' = sched \<and> callback_events es = []) \<and>
   (run ndebug (vblank_scheduler_new cb ud) ops = Inr (sched'', es') \<longrightarrow>
      (\<forall>e \<in> set (callback_events es'). vblank_event.msc e \<noteq> 0))"
proof -
  have a: "event_is_invalid sched cne \<and> \<not> accepts sched cne" if "msc cne = 0"
    using that by (simp add: event_is_invalid_def accepts_def)
  have b: "sched' = sched \<and> callback_events es = []"
    if "msc cne = 0" "handle_present_complete_notify ndebug sched now cne = Inr (sched', es)"
    using handler_cases [OF that(2)] a [OF that(1)] by auto
  have c: "\<forall>e \<in> set (callback_events es'). vblank_event.msc e \<noteq> 0"
    if "run ndebug (vblank_scheduler_new cb ud) ops = Inr (sched'', es')"
    using run_msc_nonzero [OF that] by (simp add: new_simps)
  from a b c show ?thesis by blast
qed

theorem msc_zero_is_rejected_witness:
  "handle_present_complete_notify True (vblank_scheduler_new 7 9)
     \<lparr>tv_sec = 0, tv_nsec = 17000000\<rparr> \<lparr>kind = 1, window = 3, ust = 16667, msc = 0\<rparr> =
     Inr (vblank_scheduler_new 7 9, [X_request_vblank_event 3 1]) \<and>
   run True (vblank_scheduler_new 7 9)
     [Notify \<lparr>tv_sec = 0, tv_nsec = 17000000\<rparr> \<lparr>kind = 1, window = 3, ust = 16667, msc = 0\<rparr>,
      Timer_expire,
      Notify \<lparr>tv_sec = 0, tv_nsec = 17000000\<rparr> \<lparr>kind = 1, window = 3, ust = 16667, msc = 101\<rparr>] =
     Inr ((vblank_scheduler_new 7 9)\<lparr>last_msc := 101, last_ust := 16667\<rparr>,
          [X_request_vblank_event 3 1,
           Callback 7 \<lparr>vblank_event.msc = 101, ust = 16667\<rparr> 9]) \<and>
   vblank_event.msc \<lparr>vblank_event.msc = 101, ust = 16667\<rparr> \<noteq> 0"
proof -
  let ?z = "\<lparr>kind = 1, window = 3, ust = 16667, msc = 0\<rparr>"
  let ?now = "\<lparr>tv_sec = 0, tv_nsec = 17000000\<rparr>"
  let ?ops = "[Notify ?now ?z, Timer_expire,
      Notify ?now \<lparr>kind = 1, window = 3, ust = 16667, msc = 101\<rparr>]"
  let ?es = "[X_request_vblank_event 3 1,
           Callback 7 \<lparr>vblank_event.msc = 101, ust = 16667\<rparr> 9]"
  have h: "handle_present_complete_notify True (vblank_scheduler_new 7 9) ?now ?z =
      Inr (vblank_scheduler_new 7 9, [X_request_vblank_event 3 1])"
    by (simp add: eval_defs)
  have r: "run True (vblank_scheduler_new 7 9) ?ops =
      Inr ((vblank_scheduler_new 7 9)\<lparr>last_msc := 101, last_ust := 16667\<rparr>, ?es)"
    by (simp add: eval_defs)
  from msc_zero_is_rejected
    [of ?z "vblank_scheduler_new 7 9" True ?now "vblank_scheduler_new 7 9"
        "[X_request_vblank_event 3 1]" 7 9 ?ops
        "(vblank_scheduler_new 7 9)\<lparr>last_msc := 101, last_ust := 16667\<rparr>" ?es] r
  have "\<forall>e \<in> set (callback_events ?es). vblank_event.msc e \<noteq> 0"
    by blast
  then have "vblank_event.msc \<lparr>vblank_event.msc = 101, ust = 16667\<rparr> \<noteq> 0"
    by simp
  with h r show ?thesis by simp
qed

end
